theory Spec2Isabelle
  imports Complex_Main "HOL-Library.Multiset" "HOL-Library.Sublist"
begin

text \<open>
  A shallow embedding of ComfyManage: the workflow scanner (\<open>parseWorkflowData\<close>), the
  resource resolver (\<open>analyzeResourcesWithGemini\<close>), the URL validation
  (\<open>isDirectDownloadUrl\<close>), the installer script synthesizer (\<open>generateScript\<close>) and
  the download history (\<open>addToHistory\<close>). What the host supplies from outside, which is
  the JSON parser, the identifier generator, the enrichment service, the clock and the
  folder-name helper, enters each function as a parameter.
\<close>

section \<open>Strings of the host language\<close>

text \<open>
  A JavaScript string is modelled as a \<open>string\<close> whose characters are the code units
  below 256. \<open>startsWith\<close>, \<open>endsWith\<close> and \<open>includes\<close> are \<open>prefix\<close>,
  \<open>suffix\<close> and \<open>sublist\<close> (with the arguments swapped), \<open>toLowerCase\<close> and
  \<open>trim\<close> are written out.
\<close>

definition sq :: string where
  "sq = [CHR 0x27]"

definition bslash :: string where
  "bslash = [CHR 0x5C]"

definition isUpperChar :: "char \<Rightarrow> bool" where
  "isUpperChar c =
     (let n = (of_char c :: nat)
      in (65 \<le> n \<and> n \<le> 90) \<or> (192 \<le> n \<and> n \<le> 222 \<and> n \<noteq> 215))"

definition toLowerChar :: "char \<Rightarrow> char" where
  "toLowerChar c =
     (if isUpperChar c
      then (case c of Char b0 b1 b2 b3 b4 b5 b6 b7 \<Rightarrow> Char b0 b1 b2 b3 b4 True b6 b7)
      else c)"

definition toLowerCase :: "string \<Rightarrow> string" where
  "toLowerCase s = map toLowerChar s"

definition isWhiteSpace :: "char \<Rightarrow> bool" where
  "isWhiteSpace c = ((of_char c :: nat) \<in> {9, 10, 11, 12, 13, 32, 160})"

definition trim :: "string \<Rightarrow> string" where
  "trim s = rev (dropWhile isWhiteSpace (rev (dropWhile isWhiteSpace s)))"

section \<open>Data model (types.ts)\<close>

datatype ResourceType =
  CHECKPOINT | LORA | VAE | EMBEDDING | CONTROLNET | UPSCALER | CUSTOM_NODE | UNKNOWN

datatype ComputeType = GPU | CPU

record ScannedItem =
  item_id :: string
  rawName :: string
  isNode :: bool

record EnrichedResource = ScannedItem +
  name :: string
  rtype :: ResourceType
  description :: string
  targetPath :: string
  downloadUrl :: string
  confidence :: real
  computeType :: ComputeType
  fileSize :: string

record HistoryItem = EnrichedResource +
  dateAdded :: string

text \<open>The string value of each member of the \<open>ResourceType\<close> enum.\<close>

fun typeString :: "ResourceType \<Rightarrow> string" where
  "typeString CHECKPOINT = ''CHECKPOINT''"
| "typeString LORA = ''LORA''"
| "typeString VAE = ''VAE''"
| "typeString EMBEDDING = ''EMBEDDING''"
| "typeString CONTROLNET = ''CONTROLNET''"
| "typeString UPSCALER = ''UPSCALER''"
| "typeString CUSTOM_NODE = ''CUSTOM_NODE''"
| "typeString UNKNOWN = ''UNKNOWN''"

text \<open>Every error the modelled functions raise.\<close>

datatype error =
  InvalidJSONFormat
  | TypeError
  | ApiKeyMissing
  | EnrichmentCallFailed

section \<open>Download history (App.tsx, addToHistory)\<close>

text \<open>
  The history state is the list held by \<open>setHistory\<close> and written to local storage.
  \<open>addToHistory\<close> stamps every current resource, keeps those with a truthy
  \<open>downloadUrl\<close> that no existing entry carries, and puts them in front.
\<close>

definition toHistoryItem :: "string \<Rightarrow> EnrichedResource \<Rightarrow> HistoryItem" where
  "toHistoryItem timestamp r = EnrichedResource.extend r (HistoryItem.fields timestamp)"

definition addToHistory ::
  "string \<Rightarrow> EnrichedResource list \<Rightarrow> HistoryItem list \<Rightarrow> HistoryItem list" where
  "addToHistory timestamp resources prev =
     (let newItems = map (toHistoryItem timestamp) resources;
          existingUrls = set (map downloadUrl prev);
          filteredNew = filter (\<lambda>i. downloadUrl i \<noteq> [] \<and> downloadUrl i \<notin> existingUrls) newItems
      in filteredNew @ prev)"

definition clearHistory :: "HistoryItem list" where
  "clearHistory = []"

text \<open>
  The history reached from the empty one by a sequence of commits, each a timestamp and
  the resource list current at that moment.
\<close>

definition historyAfter :: "(string \<times> EnrichedResource list) list \<Rightarrow> HistoryItem list" where
  "historyAfter commits = foldl (\<lambda>h (ts, rs). addToHistory ts rs h) clearHistory commits"

section \<open>Resource resolver (services/geminiService.ts)\<close>

text \<open>
  One element of the collaborator's parsed response, at the types the response schema
  gives its fields. \<open>computeType\<close> and \<open>fileSize\<close> are the two fields the code guards
  with \<open>||\<close>, so they may be absent (\<open>None\<close>) or, for the size, empty.
\<close>

record Guess =
  g_rawName :: string
  g_name :: string
  g_type :: ResourceType
  g_targetPath :: string
  g_downloadUrl :: string
  g_computeType :: "ComputeType option"
  g_fileSize :: "string option"
  g_description :: string

text \<open>
  What one call of the collaborator can do: the awaited call rejects; the response has
  no text; the text does not parse, or parses to something \<open>map\<close> cannot traverse (both
  land in the same \<open>catch\<close>); or it parses to a list of guesses.
\<close>

datatype Outcome = CallRejected | NoText | Unparsable | Parsed "Guess list"

text \<open>
  The collaborator is a parameter: the outcome of call number \<open>k\<close> on the prompt
  built from a chunk, which carries the \<open>rawName\<close> and \<open>isNode\<close> of each item and
  nothing else. \<open>crypto.randomUUID()\<close> is a supply indexed by the call and by the
  position of the guess within its response.
\<close>

type_synonym Collaborator = "nat \<Rightarrow> (string \<times> bool) list \<Rightarrow> Outcome"

definition BATCH_SIZE :: nat where
  "BATCH_SIZE = 20"

definition chunksOf :: "ScannedItem list \<Rightarrow> ScannedItem list list" where
  "chunksOf items =
     map (\<lambda>n. take BATCH_SIZE (drop (n * BATCH_SIZE) items))
       [0 ..< (length items + BATCH_SIZE - 1) div BATCH_SIZE]"

definition promptItems :: "ScannedItem list \<Rightarrow> (string \<times> bool) list" where
  "promptItems chunk = map (\<lambda>i. (rawName i, isNode i)) chunk"

definition mergeGuess ::
  "(nat \<Rightarrow> nat \<Rightarrow> string) \<Rightarrow> nat \<Rightarrow> ScannedItem list \<Rightarrow> nat \<Rightarrow> Guess \<Rightarrow> EnrichedResource" where
  "mergeGuess uuid k chunk j res =
     (let original = find (\<lambda>c. rawName c = g_rawName res) chunk
      in \<lparr> item_id = (case original of Some c \<Rightarrow> item_id c | None \<Rightarrow> uuid k j),
           rawName = g_rawName res,
           isNode = (case original of Some c \<Rightarrow> isNode c | None \<Rightarrow> False),
           name = g_name res,
           rtype = g_type res,
           description = g_description res,
           targetPath = g_targetPath res,
           downloadUrl = g_downloadUrl res,
           confidence = 9 / 10,
           computeType = (case g_computeType res of
                            Some c \<Rightarrow> c
                          | None \<Rightarrow> (if g_type res = CUSTOM_NODE then CPU else GPU)),
           fileSize = (case g_fileSize res of
                         Some s \<Rightarrow> (if s = [] then ''N/A'' else s)
                       | None \<Rightarrow> ''N/A'') \<rparr>)"

definition mergedChunk ::
  "(nat \<Rightarrow> nat \<Rightarrow> string) \<Rightarrow> nat \<Rightarrow> ScannedItem list \<Rightarrow> Guess list \<Rightarrow> EnrichedResource list" where
  "mergedChunk uuid k chunk jsonResponse =
     map (\<lambda>(j, res). mergeGuess uuid k chunk j res) (enumerate 0 jsonResponse)"

text \<open>
  The loop over the chunks. The awaited call stands outside the \<open>try\<close>, so a rejected
  call leaves the function with the error; the parse and the merge stand inside it.
\<close>

fun resolveChunks ::
  "(nat \<Rightarrow> nat \<Rightarrow> string) \<Rightarrow> Collaborator \<Rightarrow> nat \<Rightarrow> EnrichedResource list \<Rightarrow>
   ScannedItem list list \<Rightarrow> error + EnrichedResource list" where
  "resolveChunks uuid ai k allEnriched [] = Inr allEnriched"
| "resolveChunks uuid ai k allEnriched (chunk # rest) =
     (case ai k (promptItems chunk) of
        CallRejected \<Rightarrow> Inl EnrichmentCallFailed
      | NoText \<Rightarrow> resolveChunks uuid ai (Suc k) allEnriched rest
      | Unparsable \<Rightarrow> resolveChunks uuid ai (Suc k) allEnriched rest
      | Parsed jsonResponse \<Rightarrow>
          resolveChunks uuid ai (Suc k) (allEnriched @ mergedChunk uuid k chunk jsonResponse) rest)"

definition analyzeResourcesWithGemini ::
  "string option \<Rightarrow> (nat \<Rightarrow> nat \<Rightarrow> string) \<Rightarrow> Collaborator \<Rightarrow> ScannedItem list \<Rightarrow>
   error + EnrichedResource list" where
  "analyzeResourcesWithGemini apiKey uuid ai items =
     (if apiKey = None \<or> apiKey = Some [] then Inl ApiKeyMissing
      else resolveChunks uuid ai 0 [] (chunksOf items))"

text \<open>
  What the batches that returned guesses hand to the merge, in batch order and, within a
  batch, in response order: the call number, the position, the chunk and the guess.
\<close>

definition returnedGuesses ::
  "Collaborator \<Rightarrow> ScannedItem list \<Rightarrow> (nat \<times> ScannedItem list \<times> nat \<times> Guess) list" where
  "returnedGuesses ai items =
     concat (map (\<lambda>(k, chunk). case ai k (promptItems chunk) of
                                  Parsed gs \<Rightarrow> map (\<lambda>(j, g). (k, chunk, j, g)) (enumerate 0 gs)
                                | _ \<Rightarrow> [])
                 (enumerate 0 (chunksOf items)))"

text \<open>What batch \<open>k\<close> adds to the result when its call does not reject.\<close>

definition contribution ::
  "(nat \<Rightarrow> nat \<Rightarrow> string) \<Rightarrow> Collaborator \<Rightarrow> nat \<Rightarrow> ScannedItem list \<Rightarrow> EnrichedResource list" where
  "contribution uuid ai k chunk =
     (case ai k (promptItems chunk) of
        Parsed gs \<Rightarrow> mergedChunk uuid k chunk gs
      | _ \<Rightarrow> [])"

text \<open>Whether the call for batch \<open>k\<close> rejects.\<close>

definition rejected :: "Collaborator \<Rightarrow> nat \<Rightarrow> ScannedItem list \<Rightarrow> bool" where
  "rejected ai k chunk = (ai k (promptItems chunk) = CallRejected)"

section \<open>Workflow scanner (parseWorkflowData)\<close>

text \<open>
  The value \<open>JSON.parse\<close> returns. An object holds its own properties in enumeration
  order; \<open>json option\<close> is a value that may be \<open>undefined\<close> (\<open>None\<close>).
\<close>

datatype json =
  JNull
  | JBool bool
  | JNum real
  | JStr string
  | JArr "json list"
  | JObj "(string \<times> json) list"

fun truthy :: "json option \<Rightarrow> bool" where
  "truthy None = False"
| "truthy (Some JNull) = False"
| "truthy (Some (JBool b)) = b"
| "truthy (Some (JNum x)) = (x \<noteq> 0)"
| "truthy (Some (JStr s)) = (s \<noteq> [])"
| "truthy (Some (JArr vs)) = True"
| "truthy (Some (JObj kvs)) = True"

text \<open>
  Reading one of the properties the scanner asks for (\<open>nodes\<close>, \<open>type\<close>,
  \<open>widgets_values\<close>, \<open>class_type\<close>, \<open>inputs\<close>): on \<open>null\<close> it throws, on an object
  it is the property or \<open>undefined\<close>, and no array, string, number or boolean has any
  of these.
\<close>

fun getProp :: "json \<Rightarrow> string \<Rightarrow> error + json option" where
  "getProp JNull k = Inl TypeError"
| "getProp (JObj kvs) k = Inr (map_of kvs k)"
| "getProp v k = Inr None"

definition digitChar :: "nat \<Rightarrow> char" where
  "digitChar d = ''0123456789'' ! d"

fun decimal :: "nat \<Rightarrow> string" where
  "decimal n = (if n < 10 then [digitChar n] else decimal (n div 10) @ [digitChar (n mod 10)])"

declare decimal.simps [simp del]

text \<open>The keys and values a \<open>for ... in\<close> loop visits.\<close>

fun forIn :: "json \<Rightarrow> (string \<times> json) list" where
  "forIn (JObj kvs) = kvs"
| "forIn (JArr vs) = map (\<lambda>iv. (decimal (fst iv), snd iv)) (enumerate 0 vs)"
| "forIn (JStr s) = map (\<lambda>ic. (decimal (fst ic), JStr [snd ic])) (enumerate 0 s)"
| "forIn v = []"

definition CORE_NODES :: "string list" where
  "CORE_NODES =
     [''KSampler'', ''CheckpointLoaderSimple'', ''CLIPTextEncode'', ''VAEDecode'',
      ''EmptyLatentImage'', ''SaveImage'', ''PreviewImage'', ''LoadImage'', ''Note'',
      ''PrimitiveNode'', ''Reroute'', ''LoraLoader'', ''VAELoader'', ''ControlNetLoader'',
      ''UpscaleModelLoader'', ''Group'']"

definition isCoreNode :: "string \<Rightarrow> bool" where
  "isCoreNode t = (t \<in> set CORE_NODES \<or> prefix ''ComfyUI'' t)"

text \<open>
  \<open>items\<close> is the insertion-ordered \<open>Map\<close>, keyed by the \<open>rawName\<close> of its values.
  Every caller passes a string, so the \<open>typeof\<close> guard never fires; one identifier is
  drawn per insertion, so the draw for a new item is the one numbered by the size of
  the map.
\<close>

definition addItem :: "(nat \<Rightarrow> string) \<Rightarrow> ScannedItem list \<Rightarrow> string \<Rightarrow> bool \<Rightarrow> ScannedItem list" where
  "addItem uuid items nm isNd =
     (if nm = [] then items
      else (let cleanName = trim nm
            in if cleanName \<in> set (map rawName items) then items
               else items @ [\<lparr> item_id = uuid (length items), rawName = cleanName, isNode = isNd \<rparr>]))"

text \<open>
  \<open>if (t && !isCoreNode(t)) addItem(t, true)\<close>: a truthy value that is not a string
  reaches \<open>t.startsWith\<close>, which is not a function there.
\<close>

fun captureType :: "(nat \<Rightarrow> string) \<Rightarrow> ScannedItem list \<Rightarrow> json option \<Rightarrow> error + ScannedItem list" where
  "captureType uuid items (Some (JStr t)) =
     (if t \<noteq> [] \<and> \<not> isCoreNode t then Inr (addItem uuid items t True) else Inr items)"
| "captureType uuid items v = (if truthy v then Inl TypeError else Inr items)"

definition fileKeys :: "string list" where
  "fileKeys =
     [''ckpt_name'', ''lora_name'', ''vae_name'', ''control_net_name'',
      ''upscale_model_name'', ''model_name'', ''embedding'', ''image'']"

definition inputStep :: "(nat \<Rightarrow> string) \<Rightarrow> ScannedItem list \<Rightarrow> string \<times> json \<Rightarrow> ScannedItem list" where
  "inputStep uuid items kv =
     (case snd kv of
        JStr val \<Rightarrow>
          (let lowerVal = toLowerCase val
           in if fst kv \<in> set fileKeys \<or> suffix ''.safetensors'' lowerVal \<or> suffix ''.ckpt'' lowerVal
                 \<or> suffix ''.pt'' lowerVal \<or> suffix ''.pth'' lowerVal
              then addItem uuid items val False else items)
      | _ \<Rightarrow> items)"

definition processInputs :: "(nat \<Rightarrow> string) \<Rightarrow> ScannedItem list \<Rightarrow> json option \<Rightarrow> ScannedItem list" where
  "processInputs uuid items inputs =
     (case inputs of
        None \<Rightarrow> items
      | Some v \<Rightarrow> (if truthy (Some v) then foldl (inputStep uuid) items (forIn v) else items))"

definition widgetStep :: "(nat \<Rightarrow> string) \<Rightarrow> ScannedItem list \<Rightarrow> json \<Rightarrow> ScannedItem list" where
  "widgetStep uuid items v =
     (case v of
        JStr val \<Rightarrow>
          (let lowerVal = toLowerCase val
           in if suffix ''.safetensors'' lowerVal \<or> suffix ''.ckpt'' lowerVal
              then addItem uuid items val False else items)
      | _ \<Rightarrow> items)"

text \<open>A loop whose body may throw: the first error leaves the loop with it.\<close>

fun forEachE ::
  "(ScannedItem list \<Rightarrow> json \<Rightarrow> error + ScannedItem list) \<Rightarrow> ScannedItem list \<Rightarrow> json list \<Rightarrow>
   error + ScannedItem list" where
  "forEachE f items [] = Inr items"
| "forEachE f items (x # xs) =
     (case f items x of Inl e \<Rightarrow> Inl e | Inr items' \<Rightarrow> forEachE f items' xs)"

definition savedNodeStep :: "(nat \<Rightarrow> string) \<Rightarrow> ScannedItem list \<Rightarrow> json \<Rightarrow> error + ScannedItem list" where
  "savedNodeStep uuid items node =
     (case getProp node ''type'' of
        Inl e \<Rightarrow> Inl e
      | Inr t \<Rightarrow>
          (case captureType uuid items t of
             Inl e \<Rightarrow> Inl e
           | Inr items1 \<Rightarrow>
               (case getProp node ''widgets_values'' of
                  Inl e \<Rightarrow> Inl e
                | Inr (Some (JArr vals)) \<Rightarrow> Inr (foldl (widgetStep uuid) items1 vals)
                | Inr _ \<Rightarrow> Inr items1)))"

definition apiNodeStep :: "(nat \<Rightarrow> string) \<Rightarrow> ScannedItem list \<Rightarrow> json \<Rightarrow> error + ScannedItem list" where
  "apiNodeStep uuid items node =
     (case getProp node ''class_type'' of
        Inl e \<Rightarrow> Inl e
      | Inr ct \<Rightarrow>
          (case captureType uuid items ct of
             Inl e \<Rightarrow> Inl e
           | Inr items1 \<Rightarrow>
               (case getProp node ''inputs'' of
                  Inl e \<Rightarrow> Inl e
                | Inr inputs \<Rightarrow> Inr (processInputs uuid items1 inputs))))"

text \<open>The body of \<open>parseWorkflowData\<close> once the text has parsed.\<close>

definition scanParsed :: "(nat \<Rightarrow> string) \<Rightarrow> json \<Rightarrow> error + ScannedItem list" where
  "scanParsed uuid data =
     (case getProp data ''nodes'' of
        Inl e \<Rightarrow> Inl e
      | Inr (Some (JArr nodes)) \<Rightarrow> forEachE (savedNodeStep uuid) [] nodes
      | Inr _ \<Rightarrow> forEachE (apiNodeStep uuid) [] (map snd (forIn data)))"

text \<open>\<open>JSON.parse\<close> is a parameter: \<open>None\<close> where it throws.\<close>

definition parseWorkflowData ::
  "(string \<Rightarrow> json option) \<Rightarrow> (nat \<Rightarrow> string) \<Rightarrow> string \<Rightarrow> error + ScannedItem list" where
  "parseWorkflowData JSON_parse uuid jsonString =
     (case JSON_parse jsonString of
        None \<Rightarrow> Inl InvalidJSONFormat
      | Some data \<Rightarrow> scanParsed uuid data)"

text \<open>
  The two document shapes as section 4.1 of the specification words them. Graph form: a
  top-level list \<open>nodes\<close> of node records, each with a \<open>type\<close> identifier and, if any, a
  list of widget values. Execution form: a mapping from keys to node records, each with
  a \<open>class_type\<close> identifier and a nested \<open>inputs\<close> mapping.
\<close>

definition graphNodeRecord :: "json \<Rightarrow> bool" where
  "graphNodeRecord n =
     (case n of
        JObj kvs \<Rightarrow>
          (case map_of kvs ''type'' of Some (JStr t) \<Rightarrow> True | _ \<Rightarrow> False)
          \<and> (case map_of kvs ''widgets_values'' of None \<Rightarrow> True | Some (JArr vs) \<Rightarrow> True | _ \<Rightarrow> False)
      | _ \<Rightarrow> False)"

definition graphForm :: "json \<Rightarrow> bool" where
  "graphForm d =
     (case d of
        JObj kvs \<Rightarrow> (case map_of kvs ''nodes'' of Some (JArr nodes) \<Rightarrow> list_all graphNodeRecord nodes | _ \<Rightarrow> False)
      | _ \<Rightarrow> False)"

definition executionNodeRecord :: "json \<Rightarrow> bool" where
  "executionNodeRecord n =
     (case n of
        JObj kvs \<Rightarrow>
          (case map_of kvs ''class_type'' of Some (JStr t) \<Rightarrow> True | _ \<Rightarrow> False)
          \<and> (case map_of kvs ''inputs'' of Some (JObj ps) \<Rightarrow> True | _ \<Rightarrow> False)
      | _ \<Rightarrow> False)"

definition executionForm :: "json \<Rightarrow> bool" where
  "executionForm d =
     (case d of
        JObj kvs \<Rightarrow> list_all (\<lambda>kv. executionNodeRecord (snd kv)) kvs
      | _ \<Rightarrow> False)"

section \<open>URL validation (ScriptPreview, isDirectDownloadUrl)\<close>

record Validation =
  isValid :: bool
  reason :: "string option"

definition commonModelHosts :: "string list" where
  "commonModelHosts = [''civitai.com'', ''huggingface.co'', ''files.catbox.moe'']"

text \<open>The endings the regular expression \<open>\.(safetensors|ckpt|pt|pth|bin)$\<close> accepts.\<close>

definition modelFileEndings :: "string list" where
  "modelFileEndings = [''.safetensors'', ''.ckpt'', ''.pt'', ''.pth'', ''.bin'']"

definition isDirectDownloadUrl :: "string \<Rightarrow> ResourceType \<Rightarrow> Validation" where
  "isDirectDownloadUrl url ty =
     (if length url < 5
      then \<lparr> isValid = False, reason = Some ''URL is empty or too short.'' \<rparr>
      else (let lowerUrl = toLowerCase url
            in if prefix ''search:'' lowerUrl
               then \<lparr> isValid = False,
                      reason = Some ''This is a search query, not a direct download link.'' \<rparr>
               else if prefix ''page:'' lowerUrl
               then \<lparr> isValid = False,
                      reason = Some ''This is a general page, not a direct download link.'' \<rparr>
               else if \<not> prefix ''http://'' lowerUrl \<and> \<not> prefix ''https://'' lowerUrl
               then (if ty = CUSTOM_NODE \<and> prefix ''git@'' lowerUrl \<and> sublist ''github.com'' lowerUrl
                     then \<lparr> isValid = True, reason = None \<rparr>
                     else \<lparr> isValid = False,
                            reason = Some ''URL does not start with http(s):// or is not a recognized GitHub SSH URL.'' \<rparr>)
               else if ty = CUSTOM_NODE
               then (if \<not> sublist ''github.com'' lowerUrl
                     then \<lparr> isValid = False,
                            reason = Some ''Custom Node URL should be a GitHub repository.'' \<rparr>
                     else \<lparr> isValid = True, reason = None \<rparr>)
               else if \<not> list_ex (\<lambda>host. sublist host lowerUrl) commonModelHosts
                       \<and> \<not> list_ex (\<lambda>e. suffix e lowerUrl) modelFileEndings
               then \<lparr> isValid = False,
                      reason = Some ''Model URL might not be a direct download or recognized hosting platform.'' \<rparr>
               else \<lparr> isValid = True, reason = None \<rparr>))"

section \<open>Installer script synthesizer (ScriptPreview, generateScript)\<close>

text \<open>
  \<open>getRepoFolderName\<close> derives the clone directory from the URL with the host's
  regular-expression engine and URL parser; the generator takes it as a parameter, so
  every statement about the script holds for whatever it returns. The current date,
  already cut to its day, is the parameter \<open>timestamp\<close>. Each \<open>script += ...\<close> of the
  source is one element of the lists below.
\<close>

datatype ScriptFormat = bash | bat

definition bashHeader :: "string \<Rightarrow> string" where
  \<open>bashHeader timestamp =
     concat
       [''#!/bin/bash\<newline># ComfyUI Resource Installer - Generated on '' @ timestamp @ ''\<newline>'',
        ''# NOTE: Run this script from your '' @ sq @ ''ComfyUI'' @ sq @ '' root folder.\<newline>'',
        ''# Assumes '' @ sq @ ''python'' @ sq @ '' and '' @ sq @ ''pip'' @ sq @ '' are in your PATH (active venv).\<newline>\<newline>'',
        ''echo "Starting ComfyUI Resource Download..."\<newline>\<newline>'']\<close>

definition bashPrefix :: "EnrichedResource \<Rightarrow> string" where
  \<open>bashPrefix r =
     concat
       [''# ----------------------------------------------------------------\<newline>'',
        ''# ['' @ typeString (rtype r) @ ''] '' @ name r @ ''\<newline>'']\<close>

definition bashCustomNode :: "(string \<Rightarrow> string) \<Rightarrow> EnrichedResource \<Rightarrow> string" where
  \<open>bashCustomNode getRepoFolderName r =
     (let repoDir = getRepoFolderName (downloadUrl r)
      in concat
          [''echo "Processing Custom Node: '' @ name r @ ''..."\<newline>'',
           ''mkdir -p "custom_nodes"\<newline>'',
           ''cd "custom_nodes"\<newline>'',
           ''if [ ! -d "'' @ repoDir @ ''" ]; then\<newline>'',
           ''  echo "  Cloning repo '' @ sq @ downloadUrl r @ sq @ ''..."\<newline>'',
           ''  git clone "'' @ downloadUrl r @ ''"\<newline>'',
           ''  if [ $? -ne 0 ]; then\<newline>'',
           ''    echo "  ERROR: Git clone failed for '' @ name r @ ''. Check URL and internet connection."\<newline>'',
           ''  else\<newline>'',
           ''    echo "  Clone successful."\<newline>'',
           ''  fi\<newline>'',
           ''else\<newline>'',
           ''  echo "  Folder '' @ sq @ repoDir @ sq @ '' already exists. Skipping clone."\<newline>'',
           ''fi\<newline>'',
           ''if [ -d "'' @ repoDir @ ''" ]; then\<newline>'',
           ''  cd "'' @ repoDir @ ''"\<newline>'',
           ''  if [ -f ".gitmodules" ]; then\<newline>'',
           ''    echo "  Initializing submodules..."\<newline>'',
           ''    git submodule update --init --recursive\<newline>'',
           ''    if [ $? -ne 0 ]; then\<newline>'',
           ''      echo "  WARNING: Submodule update failed for '' @ name r @ ''."\<newline>'',
           ''    }\<newline>'',
           ''  fi\<newline>'',
           ''  if [ -f "requirements.txt" ]; then\<newline>'',
           ''    echo "  Installing requirements.txt..."\<newline>'',
           ''    pip install -r requirements.txt\<newline>'',
           ''    if [ $? -ne 0 ]; then\<newline>'',
           ''      echo "  WARNING: Pip installation failed for '' @ name r @ '' requirements."\<newline>'',
           ''    fi\<newline>'',
           ''  fi\<newline>'',
           ''  if [ -f "install.py" ]; then\<newline>'',
           ''    echo "  Running install.py..."\<newline>'',
           ''    python install.py\<newline>'',
           ''    if [ $? -ne 0 ]; then\<newline>'',
           ''      echo "  WARNING: install.py failed for '' @ name r @ ''."\<newline>'',
           ''    fi\<newline>'',
           ''  fi\<newline>'',
           ''  cd ..\<newline>'',
           ''fi\<newline>'',
           ''cd ..\<newline>\<newline>''])\<close>

definition bashModel :: "EnrichedResource \<Rightarrow> string" where
  \<open>bashModel r =
     concat
       [''echo "Processing Model: '' @ name r @ ''..."\<newline>'',
        ''mkdir -p "'' @ targetPath r @ ''"\<newline>'',
        ''if [ ! -f "'' @ targetPath r @ ''/'' @ rawName r @ ''" ]; then\<newline>'',
        ''  echo "  Downloading '' @ sq @ downloadUrl r @ sq @ '' to '' @ sq @ targetPath r @ ''/'' @ rawName r @ sq @ ''..."\<newline>'',
        ''  wget -c --show-progress -O "'' @ targetPath r @ ''/'' @ rawName r @ ''" "'' @ downloadUrl r @ ''"\<newline>'',
        ''  if [ $? -ne 0 ]; then\<newline>'',
        ''    echo "  ERROR: Download failed for '' @ name r @ '' from '' @ downloadUrl r @ ''"\<newline>'',
        ''    echo "  Please check the URL and your network connection, or try downloading manually."\<newline>'',
        ''  else\<newline>'',
        ''    echo "  Download successful for '' @ name r @ ''."\<newline>'',
        ''  fi\<newline>'',
        ''else\<newline>'',
        ''  echo "  File '' @ sq @ rawName r @ sq @ '' already exists in '' @ sq @ targetPath r @ sq @ ''. Skipping download."\<newline>'',
        ''fi\<newline>\<newline>'']\<close>

definition bashTrailer :: string where
  \<open>bashTrailer =
     concat
       [''echo "----------------------------------------------------------------"\<newline>'',
        ''echo "All done! Please restart ComfyUI."'']\<close>

definition batHeader :: "string \<Rightarrow> string" where
  \<open>batHeader timestamp =
     concat
       [''@echo off\<newline>:: ComfyUI Resource Installer - Generated on '' @ timestamp @ ''\<newline>'',
        '':: NOTE: Run this from your '' @ sq @ ''ComfyUI'' @ sq @ '' root folder.\<newline>\<newline>'',
        '':: --- Environment Setup ---\<newline>'',
        ''set "PYTHON_EXE=python"\<newline>'',
        ''set "PIP_EXE=pip"\<newline>\<newline>'',
        ''if exist "..'' @ bslash @ ''python_embeded'' @ bslash @ ''python.exe" (\<newline>'',
        ''    echo [INFO] Detected ComfyUI Portable Environment.\<newline>'',
        ''    set "PYTHON_EXE=..'' @ bslash @ ''python_embeded'' @ bslash @ ''python.exe"\<newline>'',
        ''    set "PIP_EXE=..'' @ bslash @ ''python_embeded'' @ bslash @ ''python.exe -m pip"\<newline>'',
        '') else (\<newline>'',
        ''    echo [INFO] Using system Python. Ensure it is in your PATH.\<newline>'',
        '')\<newline>\<newline>'',
        ''echo Starting ComfyUI Resource Download...\<newline>\<newline>'']\<close>

definition batPrefix :: "EnrichedResource \<Rightarrow> string" where
  \<open>batPrefix r =
     concat
       ['':: ----------------------------------------------------------------\<newline>'',
        '':: ['' @ typeString (rtype r) @ ''] '' @ name r @ ''\<newline>'']\<close>

definition batCustomNode :: "(string \<Rightarrow> string) \<Rightarrow> EnrichedResource \<Rightarrow> string" where
  \<open>batCustomNode getRepoFolderName r =
     (let repoDir = getRepoFolderName (downloadUrl r);
          winPath = ''custom_nodes''
      in concat
          [''echo Processing Custom Node: '' @ name r @ ''...\<newline>'',
           ''if not exist "'' @ winPath @ ''" mkdir "'' @ winPath @ ''"\<newline>'',
           ''cd "'' @ winPath @ ''"\<newline>'',
           ''if not exist "'' @ repoDir @ ''" (\<newline>'',
           ''  echo   Cloning repo '' @ sq @ downloadUrl r @ sq @ ''...\<newline>'',
           ''  git clone "'' @ downloadUrl r @ ''"\<newline>'',
           ''  if %ERRORLEVEL% NEQ 0 (\<newline>'',
           ''    echo   ERROR: Git clone failed for '' @ name r @ ''. Check URL and internet connection.\<newline>'',
           ''  ) else (\<newline>'',
           ''    echo   Clone successful.\<newline>'',
           ''  )\<newline>'',
           '') else (\<newline>'',
           ''  echo   Folder '' @ sq @ repoDir @ sq @ '' already exists. Skipping clone.\<newline>'',
           '')\<newline>'',
           ''if exist "'' @ repoDir @ ''" (\<newline>'',
           ''  cd "'' @ repoDir @ ''"\<newline>'',
           ''  if exist ".gitmodules" (\<newline>'',
           ''    echo   Initializing submodules...\<newline>'',
           ''    git submodule update --init --recursive\<newline>'',
           ''    if %ERRORLEVEL% NEQ 0 (\<newline>'',
           ''      echo   WARNING: Submodule update failed for '' @ name r @ ''.\<newline>'',
           ''    )\<newline>'',
           ''  )\<newline>'',
           ''  if exist "requirements.txt" (\<newline>'',
           ''    echo   Installing requirements.txt...\<newline>'',
           ''    %PIP_EXE% install -r requirements.txt\<newline>'',
           ''    if %ERRORLEVEL% NEQ 0 (\<newline>'',
           ''      echo   WARNING: Pip installation failed for '' @ name r @ '' requirements.\<newline>'',
           ''    )\<newline>'',
           ''  )\<newline>'',
           ''  if exist "install.py" (\<newline>'',
           ''    echo   Running install.py...\<newline>'',
           ''    %PYTHON_EXE% install.py\<newline>'',
           ''    if %ERRORLEVEL% NEQ 0 (\<newline>'',
           ''      echo   WARNING: install.py failed for '' @ name r @ ''.\<newline>'',
           ''    )\<newline>'',
           ''  )\<newline>'',
           ''  cd ..\<newline>'',
           '')\<newline>'',
           ''cd ..\<newline>\<newline>''])\<close>

text \<open>The \<open>replace\<close> on \<open>targetPath\<close>: every slash becomes a backslash.\<close>

definition toWinPath :: "string \<Rightarrow> string" where
  "toWinPath p = map (\<lambda>c. if c = CHR ''/'' then CHR 0x5C else c) p"

definition batModel :: "EnrichedResource \<Rightarrow> string" where
  \<open>batModel r =
     (let winPath = toWinPath (targetPath r)
      in concat
          [''echo Processing Model: '' @ name r @ ''...\<newline>'',
           ''if not exist "'' @ winPath @ ''" mkdir "'' @ winPath @ ''"\<newline>'',
           ''if not exist "'' @ winPath @ bslash @ rawName r @ ''" (\<newline>'',
           ''  echo   Downloading '' @ sq @ downloadUrl r @ sq @ '' to '' @ sq @ winPath @ bslash @ rawName r @ sq @ ''...\<newline>'',
           ''  powershell -Command "$ProgressPreference = '' @ sq @ ''Continue'' @ sq @ ''; try { Invoke-WebRequest -Uri '' @ sq @ downloadUrl r @ sq @ '' -OutFile '' @ sq @ winPath @ bslash @ rawName r @ sq @ '' -ErrorAction Stop | Out-Null; Write-Host '' @ sq @ ''  Download successful for '' @ name r @ ''.'' @ sq @ '' } catch { Write-Host '' @ sq @ ''  ERROR: Download failed for '' @ name r @ '' from '' @ downloadUrl r @ '' - $($_.Exception.Message)'' @ sq @ ''; Write-Host '' @ sq @ ''  Please check the URL and your network connection, or try downloading manually.'' @ sq @ '' }" \<newline>'',
           '') else (\<newline>'',
           ''  echo   File '' @ sq @ rawName r @ sq @ '' already exists in '' @ sq @ winPath @ sq @ ''. Skipping download.\<newline>'',
           '')\<newline>\<newline>''])\<close>

definition batTrailer :: string where
  \<open>batTrailer =
     concat
       [''echo ----------------------------------------------------------------\<newline>'',
        ''echo All done! Please restart ComfyUI.\<newline>pause'']\<close>

text \<open>The body of the two \<open>forEach\<close> loops: what one resource appends to \<open>script\<close>.\<close>

definition bashStep :: "(string \<Rightarrow> string) \<Rightarrow> string \<Rightarrow> EnrichedResource \<Rightarrow> string" where
  "bashStep getRepoFolderName script r =
     (if downloadUrl r = [] then script
      else script @ bashPrefix r
             @ (if rtype r = CUSTOM_NODE then bashCustomNode getRepoFolderName r else bashModel r))"

definition batStep :: "(string \<Rightarrow> string) \<Rightarrow> string \<Rightarrow> EnrichedResource \<Rightarrow> string" where
  "batStep getRepoFolderName script r =
     (if downloadUrl r = [] then script
      else script @ batPrefix r
             @ (if rtype r = CUSTOM_NODE then batCustomNode getRepoFolderName r else batModel r))"

definition generateScript ::
  "(string \<Rightarrow> string) \<Rightarrow> ScriptFormat \<Rightarrow> string \<Rightarrow> EnrichedResource list \<Rightarrow> string" where
  "generateScript getRepoFolderName format timestamp resources =
     (case format of
        bash \<Rightarrow> foldl (bashStep getRepoFolderName) (bashHeader timestamp) resources @ bashTrailer
      | bat \<Rightarrow> foldl (batStep getRepoFolderName) (batHeader timestamp) resources @ batTrailer)"

text \<open>
  The parts the claims about the script speak of: the header of a dialect, the block of
  one resource in a dialect, the trailer of a dialect, and the blocks of a resource
  list.
\<close>

definition scriptHeader :: "ScriptFormat \<Rightarrow> string \<Rightarrow> string" where
  "scriptHeader format timestamp =
     (case format of bash \<Rightarrow> bashHeader timestamp | bat \<Rightarrow> batHeader timestamp)"

definition resourceBlock :: "(string \<Rightarrow> string) \<Rightarrow> ScriptFormat \<Rightarrow> EnrichedResource \<Rightarrow> string" where
  "resourceBlock getRepoFolderName format r =
     (case format of
        bash \<Rightarrow> bashPrefix r
                @ (if rtype r = CUSTOM_NODE then bashCustomNode getRepoFolderName r else bashModel r)
      | bat \<Rightarrow> batPrefix r
               @ (if rtype r = CUSTOM_NODE then batCustomNode getRepoFolderName r else batModel r))"

definition scriptTrailer :: "ScriptFormat \<Rightarrow> string" where
  "scriptTrailer format = (case format of bash \<Rightarrow> bashTrailer | bat \<Rightarrow> batTrailer)"

definition resourceBlocks ::
  "(string \<Rightarrow> string) \<Rightarrow> ScriptFormat \<Rightarrow> EnrichedResource list \<Rightarrow> string list" where
  "resourceBlocks getRepoFolderName format resources =
     map (resourceBlock getRepoFolderName format) (filter (\<lambda>r. downloadUrl r \<noteq> []) resources)"

subsection \<open>Reading the conditionals of a generated block\<close>

text \<open>
  A line-by-line reader of the nesting of conditionals. In the shell dialect a line
  \<open>if ...; then\<close> opens a conditional and a line \<open>fi\<close> closes one; in the batch
  dialect a line ending in \<open>(\<close> opens a block and a line starting with \<open>)\<close> closes
  one (\<open>) else (\<close> closes and opens). The reader returns the number of conditionals
  still open after the last line, or \<open>None\<close> if a line closes what was never opened.
\<close>

fun splitLines :: "string \<Rightarrow> string list" where
  "splitLines [] = [[]]"
| "splitLines (c # cs) =
     (if c = CHR 0x0A then [] # splitLines cs
      else (case splitLines cs of l # ls \<Rightarrow> (c # l) # ls | [] \<Rightarrow> [[c]]))"

fun readLines :: "(nat \<Rightarrow> string \<Rightarrow> nat option) \<Rightarrow> nat \<Rightarrow> string list \<Rightarrow> nat option" where
  "readLines step d [] = Some d"
| "readLines step d (l # ls) =
     (case step d l of None \<Rightarrow> None | Some d' \<Rightarrow> readLines step d' ls)"

definition stripIndent :: "string \<Rightarrow> string" where
  "stripIndent l = dropWhile (\<lambda>c. c = CHR '' '') l"

definition opensIf :: "string \<Rightarrow> bool" where
  "opensIf l = (prefix ''if '' (stripIndent l) \<and> suffix ''; then'' l)"

definition closesIf :: "string \<Rightarrow> bool" where
  "closesIf l = (stripIndent l = ''fi'')"

definition ifStep :: "nat \<Rightarrow> string \<Rightarrow> nat option" where
  "ifStep d l =
     (if opensIf l then Some (Suc d)
      else if closesIf l then (case d of 0 \<Rightarrow> None | Suc d' \<Rightarrow> Some d')
      else Some d)"

definition ifDepth :: "string \<Rightarrow> nat option" where
  "ifDepth s = readLines ifStep 0 (splitLines s)"

definition opensParen :: "string \<Rightarrow> bool" where
  "opensParen l = suffix ''('' l"

definition closesParen :: "string \<Rightarrow> bool" where
  "closesParen l = prefix '')'' (stripIndent l)"

definition parenStep :: "nat \<Rightarrow> string \<Rightarrow> nat option" where
  "parenStep d l =
     (if closesParen l
      then (case d of 0 \<Rightarrow> None | Suc d' \<Rightarrow> Some (if opensParen l then Suc d' else d'))
      else Some (if opensParen l then Suc d else d))"

definition parenDepth :: "string \<Rightarrow> nat option" where
  "parenDepth s = readLines parenStep 0 (splitLines s)"

section \<open>Concrete inputs\<close>

text \<open>The resources, items, collaborators and documents the closed theorems run on.\<close>

definition uuidSupply :: "nat \<Rightarrow> nat \<Rightarrow> string" where
  "uuidSupply k j = ''uuid-'' @ decimal k @ ''-'' @ decimal j"

text \<open>
  A concrete folder-name function for the closed theorems: the last path segment
  without a trailing \<open>.git\<close>, or \<open>unknown_node\<close> if that is empty. On
  \<open>https://github.com/foo/bar\<close> it gives \<open>bar\<close>, as the source's function does.
\<close>

definition lastSegmentName :: "string \<Rightarrow> string" where
  "lastSegmentName url =
     (let seg = rev (takeWhile (\<lambda>c. c \<noteq> CHR ''/'') (rev url));
          seg' = (if suffix ''.git'' seg then take (length seg - 4) seg else seg)
      in if seg' = [] then ''unknown_node'' else seg')"

definition barNodeOne :: EnrichedResource where
  "barNodeOne =
     \<lparr> item_id = ''id-1'', rawName = ''BarLoader'', isNode = True, name = ''Bar Loader'',
       rtype = CUSTOM_NODE, description = [], targetPath = ''custom_nodes'',
       downloadUrl = ''https://github.com/foo/bar'', confidence = 9 / 10, computeType = CPU,
       fileSize = ''50KB'' \<rparr>"

definition barNodeTwo :: EnrichedResource where
  "barNodeTwo =
     \<lparr> item_id = ''id-2'', rawName = ''BarSampler'', isNode = True, name = ''Bar Sampler'',
       rtype = CUSTOM_NODE, description = [], targetPath = ''custom_nodes'',
       downloadUrl = ''https://github.com/foo/bar'', confidence = 9 / 10, computeType = CPU,
       fileSize = ''50KB'' \<rparr>"

definition noUrlModel :: EnrichedResource where
  "noUrlModel =
     \<lparr> item_id = ''id-3'', rawName = ''mystery.safetensors'', isNode = False, name = ''Mystery'',
       rtype = CHECKPOINT, description = [], targetPath = ''models/checkpoints'',
       downloadUrl = [], confidence = 9 / 10, computeType = GPU, fileSize = ''N/A'' \<rparr>"

definition echoGuess :: "string \<times> bool \<Rightarrow> Guess" where
  "echoGuess p =
     \<lparr> g_rawName = fst p, g_name = fst p, g_type = (if snd p then CUSTOM_NODE else CHECKPOINT),
       g_targetPath = (if snd p then ''custom_nodes'' else ''models/checkpoints''),
       g_downloadUrl = ''https://github.com/foo/bar'', g_computeType = None,
       g_fileSize = None, g_description = [] \<rparr>"

definition answersAll :: Collaborator where
  "answersAll k p = Parsed (map echoGuess p)"

definition rejectsFirst :: Collaborator where
  "rejectsFirst k p = (if k = 0 then CallRejected else answersAll k p)"

definition unparsableFirst :: Collaborator where
  "unparsableFirst k p = (if k = 0 then Unparsable else answersAll k p)"

definition answersNothing :: Collaborator where
  "answersNothing k p = Parsed []"

definition partialAnswers :: Collaborator where
  "partialAnswers k p = Parsed [echoGuess (''NodeA'', False), echoGuess (''Stranger'', True)]"

definition items21 :: "ScannedItem list" where
  "items21 =
     map (\<lambda>n. \<lparr> item_id = ''id-'' @ decimal n, rawName = ''Node'' @ decimal n, isNode = True \<rparr>)
       [0 ..< 21]"

definition itemA :: ScannedItem where
  "itemA = \<lparr> item_id = ''id-a'', rawName = ''NodeA'', isNode = True \<rparr>"

definition itemB :: ScannedItem where
  "itemB = \<lparr> item_id = ''id-b'', rawName = ''model.safetensors'', isNode = False \<rparr>"

definition uuidLine :: "nat \<Rightarrow> string" where
  "uuidLine n = ''uuid-'' @ decimal n"

definition parseOnly :: "string \<Rightarrow> json \<Rightarrow> string \<Rightarrow> json option" where
  "parseOnly text d s = (if s = text then Some d else None)"

definition ptGraphText :: string where
  \<open>ptGraphText = ''{"nodes":[{"type":"KSampler","widgets_values":["model.pt"]}]}''\<close>

definition ptGraphDoc :: json where
  "ptGraphDoc =
     JObj [(''nodes'', JArr [JObj [(''type'', JStr ''KSampler''),
                                   (''widgets_values'', JArr [JStr ''model.pt''])]])]"

definition ptApiText :: string where
  \<open>ptApiText = ''{"1":{"class_type":"KSampler","inputs":{"weights":"model.pt"}}}''\<close>

definition ptApiDoc :: json where
  "ptApiDoc =
     JObj [(''1'', JObj [(''class_type'', JStr ''KSampler''),
                         (''inputs'', JObj [(''weights'', JStr ''model.pt'')])])]"

definition dupGraphText :: string where
  \<open>dupGraphText = ''{"nodes":[{"type":"MyNode","widgets_values":["a.safetensors"," a.safetensors"]},{"type":"MyNode"}]}''\<close>

definition dupGraphDoc :: json where
  "dupGraphDoc =
     JObj [(''nodes'', JArr [JObj [(''type'', JStr ''MyNode''),
                                   (''widgets_values'', JArr [JStr ''a.safetensors'', JStr '' a.safetensors''])],
                             JObj [(''type'', JStr ''MyNode'')]])]"

definition dupItems :: "ScannedItem list" where
  "dupItems =
     [\<lparr> item_id = ''uuid-0'', rawName = ''MyNode'', isNode = True \<rparr>,
      \<lparr> item_id = ''uuid-1'', rawName = ''a.safetensors'', isNode = False \<rparr>]"

definition ckptModel :: EnrichedResource where
  "ckptModel =
     \<lparr> item_id = ''id-4'', rawName = ''v1-5-pruned.ckpt'', isNode = False, name = ''SD 1.5'',
       rtype = CHECKPOINT, description = [], targetPath = ''models/checkpoints'',
       downloadUrl = ''https://huggingface.co/foo/sd/resolve/main/v1-5-pruned.ckpt'',
       confidence = 9 / 10, computeType = GPU, fileSize = ''4GB'' \<rparr>"

section \<open>The download history\<close>

lemma downloadUrl_toHistoryItem: "downloadUrl (toHistoryItem ts r) = downloadUrl r"
  by (simp add: toHistoryItem_def EnrichedResource.defs ScannedItem.defs)

lemma rawName_toHistoryItem: "rawName (toHistoryItem ts r) = rawName r"
  by (simp add: toHistoryItem_def EnrichedResource.defs ScannedItem.defs)

lemma addToHistory_new_or_old:
  "h \<in> set (addToHistory ts rs prev) \<Longrightarrow> h \<in> set prev \<or> downloadUrl h \<noteq> []"
  by (auto simp: addToHistory_def Let_def)

lemma addToHistory_keeps_nonempty:
  assumes "\<forall>h \<in> set prev. downloadUrl h \<noteq> []"
  shows "\<forall>h \<in> set (addToHistory ts rs prev). downloadUrl h \<noteq> []"
  using assms addToHistory_new_or_old by blast

lemma commits_keep_nonempty:
  "\<forall>h \<in> set h0. downloadUrl h \<noteq> [] \<Longrightarrow>
   \<forall>h \<in> set (foldl (\<lambda>h (ts, rs). addToHistory ts rs h) h0 commits). downloadUrl h \<noteq> []"
proof (induction commits arbitrary: h0)
  case Nil
  then show ?case by simp
next
  case (Cons c cs)
  obtain ts rs where c: "c = (ts, rs)" by (cases c)
  have "\<forall>h \<in> set (addToHistory ts rs h0). downloadUrl h \<noteq> []"
    using Cons.prems by (rule addToHistory_keeps_nonempty)
  from Cons.IH [OF this] show ?case by (simp add: c)
qed

text \<open>
  Claim C2 does not hold of the code at this input: two resources that share one
  \<open>downloadUrl\<close>, committed together to the empty history, are both stored. The filter
  compares each new item with the entries that existed before the commit only, so the
  second of the two is not dropped.
\<close>

theorem addToHistory_stores_shared_url_twice:
  "map downloadUrl (addToHistory ''2026-01-01T00:00:00.000Z'' [barNodeOne, barNodeTwo] clearHistory)
     = [''https://github.com/foo/bar'', ''https://github.com/foo/bar'']"
  by (simp add: addToHistory_def clearHistory_def downloadUrl_toHistoryItem barNodeOne_def barNodeTwo_def)

text \<open>
  Claim C10: an entry of the history after a commit either was there before or has a
  non-empty \<open>downloadUrl\<close>, so a committed resource with an empty \<open>downloadUrl\<close> is never
  recorded; and every entry of a history built from the empty one by any sequence of
  commits has a non-empty \<open>downloadUrl\<close>.
\<close>

theorem stored_history_urls_nonempty:
  "(\<forall>h \<in> set (addToHistory ts rs prev). h \<in> set prev \<or> downloadUrl h \<noteq> [])
   \<and> (\<forall>h \<in> set (historyAfter commits). downloadUrl h \<noteq> [])"
proof
  show "\<forall>h \<in> set (addToHistory ts rs prev). h \<in> set prev \<or> downloadUrl h \<noteq> []"
    using addToHistory_new_or_old by blast
  have "\<forall>h \<in> set clearHistory. downloadUrl h \<noteq> []"
    by (simp add: clearHistory_def)
  then show "\<forall>h \<in> set (historyAfter commits). downloadUrl h \<noteq> []"
    unfolding historyAfter_def by (rule commits_keep_nonempty)
qed

theorem stored_history_urls_nonempty_witness:
  "map rawName (historyAfter [(''2026-01-01T00:00:00.000Z'', [noUrlModel, barNodeOne])]) = [''BarLoader'']
   \<and> list_all (\<lambda>h. downloadUrl h \<noteq> [])
        (historyAfter [(''2026-01-01T00:00:00.000Z'', [noUrlModel, barNodeOne])])"
proof -
  have stored:
    "map rawName (historyAfter [(''2026-01-01T00:00:00.000Z'', [noUrlModel, barNodeOne])]) = [''BarLoader'']"
    by (simp add: historyAfter_def addToHistory_def clearHistory_def downloadUrl_toHistoryItem
          rawName_toHistoryItem noUrlModel_def barNodeOne_def)
  have "\<forall>h \<in> set (historyAfter [(''2026-01-01T00:00:00.000Z'', [noUrlModel, barNodeOne])]).
          downloadUrl h \<noteq> []"
    using stored_history_urls_nonempty
      [of "[]" "[]" "[]" "[(''2026-01-01T00:00:00.000Z'', [noUrlModel, barNodeOne])]"]
    by blast
  then have "list_all (\<lambda>h. downloadUrl h \<noteq> [])
        (historyAfter [(''2026-01-01T00:00:00.000Z'', [noUrlModel, barNodeOne])])"
    by (simp add: list_all_iff)
  with stored show ?thesis by simp
qed

section \<open>The resolver\<close>

lemma resolveChunks_closed:
  "resolveChunks uuid ai k acc cs =
     (if list_ex (\<lambda>(i, c). rejected ai i c) (enumerate k cs)
      then Inl EnrichmentCallFailed
      else Inr (acc @ concat (map (\<lambda>(i, c). contribution uuid ai i c) (enumerate k cs))))"
proof (induction cs arbitrary: k acc)
  case Nil
  then show ?case by simp
next
  case (Cons c cs)
  show ?case
    by (cases "ai k (promptItems c)") (simp_all add: Cons.IH contribution_def[of _ _ k c] rejected_def[of _ k c])
qed

lemma analyze_closed:
  assumes "analyzeResourcesWithGemini apiKey uuid ai items = Inr out"
  shows "out = concat (map (\<lambda>(k, c). contribution uuid ai k c) (enumerate 0 (chunksOf items)))"
  using assms by (simp add: analyzeResourcesWithGemini_def resolveChunks_closed split: if_splits)

lemma out_eq_map:
  "concat (map (\<lambda>(k, c). contribution uuid ai k c) kcs)
   = map (\<lambda>(k, chunk, j, g). mergeGuess uuid k chunk j g)
       (concat (map (\<lambda>(k, chunk). case ai k (promptItems chunk) of
                                  Parsed gs \<Rightarrow> map (\<lambda>(j, g). (k, chunk, j, g)) (enumerate 0 gs)
                                | _ \<Rightarrow> []) kcs))"
proof (induction kcs)
  case Nil then show ?case by simp
next
  case (Cons kc kcs)
  obtain k c where kc: "kc = (k, c)" by (cases kc)
  show ?case
    by (cases "ai k (promptItems c)")
       (simp_all add: kc Cons.IH contribution_def[of _ _ k c] mergedChunk_def)
qed

lemma chunks21: "chunksOf items21 = [take 20 items21, drop 20 items21]"
  by (simp add: chunksOf_def items21_def BATCH_SIZE_def upt_rec)

lemma find_holds: "find P xs = Some x \<Longrightarrow> P x"
  by (induction xs) (auto split: if_splits)

lemma mergeGuess_relation:
  "rawName (mergeGuess uuid k chunk j g) = g_rawName g
   \<and> name (mergeGuess uuid k chunk j g) = g_name g
   \<and> rtype (mergeGuess uuid k chunk j g) = g_type g
   \<and> description (mergeGuess uuid k chunk j g) = g_description g
   \<and> targetPath (mergeGuess uuid k chunk j g) = g_targetPath g
   \<and> downloadUrl (mergeGuess uuid k chunk j g) = g_downloadUrl g
   \<and> (g_computeType g = None \<longrightarrow>
        computeType (mergeGuess uuid k chunk j g)
          = (if rtype (mergeGuess uuid k chunk j g) = CUSTOM_NODE then CPU else GPU))
   \<and> (case find (\<lambda>c. rawName c = g_rawName g) chunk of
         Some c \<Rightarrow> item_id (mergeGuess uuid k chunk j g) = item_id c
                   \<and> rawName (mergeGuess uuid k chunk j g) = rawName c
                   \<and> isNode (mergeGuess uuid k chunk j g) = isNode c
       | None \<Rightarrow> item_id (mergeGuess uuid k chunk j g) = uuid k j
                 \<and> \<not> isNode (mergeGuess uuid k chunk j g))"
proof (cases "find (\<lambda>c. rawName c = g_rawName g) chunk")
  case None
  then show ?thesis by (simp add: mergeGuess_def)
next
  case (Some c)
  from find_holds [OF Some] have "rawName c = g_rawName g" .
  with Some show ?thesis by (simp add: mergeGuess_def)
qed

text \<open>
  Claim C1 as stated fails: the merge runs over the guesses of the response, not over
  the scanned items. A scanned item for which the collaborator returns no guess gets no
  resource at all, where the claim promises one of type Unknown.
\<close>

theorem item_without_guess_gets_no_resource:
  "analyzeResourcesWithGemini (Some ''key'') uuidSupply answersNothing [itemB] = Inr []"
  by (simp add: analyzeResourcesWithGemini_def chunksOf_def BATCH_SIZE_def upt_rec
        answersNothing_def mergedChunk_def)

text \<open>
  Claim C1, amended: the result holds exactly one resource per guess the collaborator
  returned, in batch order and response order. Each resource takes \<open>rawName\<close>, \<open>name\<close>,
  \<open>type\<close>, \<open>description\<close>, \<open>targetPath\<close> and \<open>downloadUrl\<close> from its guess, and the
  default \<open>computeType\<close> when the guess has none. If a scanned item of the same batch
  has the guess's \<open>rawName\<close>, the resource takes \<open>id\<close> and \<open>isNode\<close> from the first
  such item (and shares its \<open>rawName\<close>); otherwise it gets a fresh \<open>id\<close> and
  \<open>isNode = false\<close>.
\<close>

theorem resolution_follows_the_guesses:
  assumes "analyzeResourcesWithGemini apiKey uuid ai items = Inr out"
  shows "list_all2
           (\<lambda>(k, chunk, j, g) r.
               rawName r = g_rawName g \<and> name r = g_name g \<and> rtype r = g_type g
               \<and> description r = g_description g \<and> targetPath r = g_targetPath g
               \<and> downloadUrl r = g_downloadUrl g
               \<and> (g_computeType g = None \<longrightarrow>
                    computeType r = (if rtype r = CUSTOM_NODE then CPU else GPU))
               \<and> (case find (\<lambda>c. rawName c = g_rawName g) chunk of
                     Some c \<Rightarrow> item_id r = item_id c \<and> rawName r = rawName c \<and> isNode r = isNode c
                   | None \<Rightarrow> item_id r = uuid k j \<and> \<not> isNode r))
           (returnedGuesses ai items) out"
proof -
  have out: "out = map (\<lambda>(k, chunk, j, g). mergeGuess uuid k chunk j g) (returnedGuesses ai items)"
    using analyze_closed [OF assms] by (simp add: out_eq_map returnedGuesses_def)
  show ?thesis
    unfolding out list_all2_map2
  proof (rule list_all2_refl)
    fix x :: "nat \<times> ScannedItem list \<times> nat \<times> Guess"
    obtain k chunk j g where x: "x = (k, chunk, j, g)" by (cases x) auto
    show "(case x of (k, chunk, j, g) \<Rightarrow> \<lambda>r.
               rawName r = g_rawName g \<and> name r = g_name g \<and> rtype r = g_type g
               \<and> description r = g_description g \<and> targetPath r = g_targetPath g
               \<and> downloadUrl r = g_downloadUrl g
               \<and> (g_computeType g = None \<longrightarrow>
                    computeType r = (if rtype r = CUSTOM_NODE then CPU else GPU))
               \<and> (case find (\<lambda>c. rawName c = g_rawName g) chunk of
                     Some c \<Rightarrow> item_id r = item_id c \<and> rawName r = rawName c \<and> isNode r = isNode c
                   | None \<Rightarrow> item_id r = uuid k j \<and> \<not> isNode r))
           (case x of (k, chunk, j, g) \<Rightarrow> mergeGuess uuid k chunk j g)"
      unfolding x prod.case by (rule mergeGuess_relation)
  qed
qed

theorem resolution_follows_the_guesses_witness:
  "analyzeResourcesWithGemini (Some ''key'') uuidSupply partialAnswers [itemA, itemB]
     = Inr [mergeGuess uuidSupply 0 [itemA, itemB] 0 (echoGuess (''NodeA'', False)),
            mergeGuess uuidSupply 0 [itemA, itemB] 1 (echoGuess (''Stranger'', True))]
   \<and> list_all2
           (\<lambda>(k, chunk, j, g) r.
               rawName r = g_rawName g \<and> name r = g_name g \<and> rtype r = g_type g
               \<and> description r = g_description g \<and> targetPath r = g_targetPath g
               \<and> downloadUrl r = g_downloadUrl g
               \<and> (g_computeType g = None \<longrightarrow>
                    computeType r = (if rtype r = CUSTOM_NODE then CPU else GPU))
               \<and> (case find (\<lambda>c. rawName c = g_rawName g) chunk of
                     Some c \<Rightarrow> item_id r = item_id c \<and> rawName r = rawName c \<and> isNode r = isNode c
                   | None \<Rightarrow> item_id r = uuidSupply k j \<and> \<not> isNode r))
           (returnedGuesses partialAnswers [itemA, itemB])
           [mergeGuess uuidSupply 0 [itemA, itemB] 0 (echoGuess (''NodeA'', False)),
            mergeGuess uuidSupply 0 [itemA, itemB] 1 (echoGuess (''Stranger'', True))]
   \<and> map (\<lambda>r. (item_id r, rawName r, isNode r))
        [mergeGuess uuidSupply 0 [itemA, itemB] 0 (echoGuess (''NodeA'', False)),
         mergeGuess uuidSupply 0 [itemA, itemB] 1 (echoGuess (''Stranger'', True))]
      = [(''id-a'', ''NodeA'', True), (''uuid-0-1'', ''Stranger'', False)]"
proof -
  have run: "analyzeResourcesWithGemini (Some ''key'') uuidSupply partialAnswers [itemA, itemB]
     = Inr [mergeGuess uuidSupply 0 [itemA, itemB] 0 (echoGuess (''NodeA'', False)),
            mergeGuess uuidSupply 0 [itemA, itemB] 1 (echoGuess (''Stranger'', True))]"
    by (simp add: analyzeResourcesWithGemini_def chunksOf_def BATCH_SIZE_def upt_rec
          partialAnswers_def mergedChunk_def contribution_def)
  have ids: "map (\<lambda>r. (item_id r, rawName r, isNode r))
        [mergeGuess uuidSupply 0 [itemA, itemB] 0 (echoGuess (''NodeA'', False)),
         mergeGuess uuidSupply 0 [itemA, itemB] 1 (echoGuess (''Stranger'', True))]
      = [(''id-a'', ''NodeA'', True), (''uuid-0-1'', ''Stranger'', False)]"
    by (simp add: mergeGuess_def echoGuess_def itemA_def itemB_def uuidSupply_def decimal.simps digitChar_def)
  from resolution_follows_the_guesses [OF run] run ids show ?thesis by simp
qed

text \<open>
  Claim C3 as stated fails for a call that rejects: the awaited call is outside the
  \<open>try\<close>, so the rejection of the first batch's call ends the whole resolution with the
  error, and the second batch, which would have produced a resource, is never resolved.
\<close>

theorem rejected_call_aborts_resolution:
  "analyzeResourcesWithGemini (Some ''key'') uuidSupply rejectsFirst items21 = Inl EnrichmentCallFailed
   \<and> map rawName (contribution uuidSupply rejectsFirst 1 (drop 20 items21)) = [''Node20'']"
proof
  show "analyzeResourcesWithGemini (Some ''key'') uuidSupply rejectsFirst items21 = Inl EnrichmentCallFailed"
    by (simp add: analyzeResourcesWithGemini_def resolveChunks_closed chunks21 rejected_def
          rejectsFirst_def)
  show "map rawName (contribution uuidSupply rejectsFirst 1 (drop 20 items21)) = [''Node20'']"
    by (simp add: contribution_def rejectsFirst_def answersAll_def promptItems_def mergedChunk_def
          mergeGuess_def echoGuess_def items21_def upt_rec decimal.simps digitChar_def)
qed

text \<open>
  Claim C3, amended: with an API key present, resolution fails as a whole exactly when
  the call of some batch rejects; otherwise the result is the concatenation, in batch
  order, of what each batch contributes, where a batch whose response has no text or is
  unparsable contributes nothing and a batch whose response parses contributes its
  merged guesses.
\<close>

theorem batches_resolved_unless_call_rejected:
  assumes "apiKey = Some key" and "key \<noteq> []"
  shows "analyzeResourcesWithGemini apiKey uuid ai items =
           (if list_ex (\<lambda>(k, chunk). rejected ai k chunk) (enumerate 0 (chunksOf items))
            then Inl EnrichmentCallFailed
            else Inr (concat (map (\<lambda>(k, chunk). contribution uuid ai k chunk)
                                  (enumerate 0 (chunksOf items)))))
         \<and> (\<forall>k chunk. ai k (promptItems chunk) = NoText \<or> ai k (promptItems chunk) = Unparsable
               \<longrightarrow> contribution uuid ai k chunk = [])
         \<and> (\<forall>k chunk gs. ai k (promptItems chunk) = Parsed gs
               \<longrightarrow> contribution uuid ai k chunk = mergedChunk uuid k chunk gs)"
  using assms
  by (auto simp: analyzeResourcesWithGemini_def resolveChunks_closed contribution_def)

theorem batches_resolved_unless_call_rejected_witness:
  "analyzeResourcesWithGemini (Some ''key'') uuidSupply unparsableFirst items21
     = Inr (contribution uuidSupply unparsableFirst 1 (drop 20 items21))
   \<and> contribution uuidSupply unparsableFirst 0 (take 20 items21) = []
   \<and> map rawName (contribution uuidSupply unparsableFirst 1 (drop 20 items21)) = [''Node20'']"
proof -
  have key: "Some ''key'' = Some ''key''" "''key'' \<noteq> []" by simp_all
  have nr: "\<not> list_ex (\<lambda>(k, chunk). rejected unparsableFirst k chunk) (enumerate 0 (chunksOf items21))"
    by (simp add: chunks21 rejected_def unparsableFirst_def answersAll_def)
  have u0: "unparsableFirst 0 (promptItems (take 20 items21)) = Unparsable"
    by (simp add: unparsableFirst_def)
  have n20: "map rawName (contribution uuidSupply unparsableFirst 1 (drop 20 items21)) = [''Node20'']"
    by (simp add: contribution_def unparsableFirst_def answersAll_def promptItems_def mergedChunk_def
          items21_def upt_rec mergeGuess_def echoGuess_def decimal.simps digitChar_def)
  from batches_resolved_unless_call_rejected [OF key, of uuidSupply unparsableFirst items21] nr u0 n20
  show ?thesis by (simp add: chunks21)
qed

section \<open>The scanner\<close>

lemmas scan_defs = parseWorkflowData_def scanParsed_def savedNodeStep_def apiNodeStep_def
  widgetStep_def inputStep_def processInputs_def addItem_def isCoreNode_def CORE_NODES_def fileKeys_def
  toLowerCase_def toLowerChar_def isUpperChar_def trim_def isWhiteSpace_def suffix_to_prefix

lemma addItem_distinct:
  "distinct (map rawName items) \<Longrightarrow> distinct (map rawName (addItem uuid items nm b))"
  by (simp add: addItem_def Let_def)

lemma foldl_preserves:
  assumes "\<And>acc x. I acc \<Longrightarrow> I (f acc x)" and "I acc"
  shows "I (foldl f acc xs)"
  using assms(2) by (induction xs arbitrary: acc) (simp_all add: assms(1))

lemma widgetStep_distinct:
  "distinct (map rawName items) \<Longrightarrow> distinct (map rawName (widgetStep uuid items v))"
  by (cases v) (simp_all add: widgetStep_def Let_def addItem_distinct)

lemma inputStep_distinct:
  "distinct (map rawName items) \<Longrightarrow> distinct (map rawName (inputStep uuid items kv))"
  by (cases "snd kv") (simp_all add: inputStep_def Let_def addItem_distinct)

lemma processInputs_distinct:
  assumes "distinct (map rawName items)"
  shows "distinct (map rawName (processInputs uuid items inputs))"
proof (cases inputs)
  case None
  with assms show ?thesis by (simp add: processInputs_def)
next
  case (Some v)
  have "distinct (map rawName (foldl (inputStep uuid) items (forIn v)))"
    by (rule foldl_preserves [where I = "\<lambda>acc. distinct (map rawName acc)"])
       (simp_all add: inputStep_distinct assms)
  with Some assms show ?thesis by (simp add: processInputs_def)
qed

lemma captureType_distinct:
  "distinct (map rawName items) \<Longrightarrow> captureType uuid items t = Inr items' \<Longrightarrow>
   distinct (map rawName items')"
  by (cases "(uuid, items, t)" rule: captureType.cases)
     (auto simp: addItem_distinct split: if_splits)

lemma savedNodeStep_distinct:
  assumes "distinct (map rawName items)" and "savedNodeStep uuid items node = Inr items'"
  shows "distinct (map rawName items')"
proof -
  from assms(2) obtain t items1 where
    t: "getProp node ''type'' = Inr t" and c: "captureType uuid items t = Inr items1"
    by (auto simp: savedNodeStep_def split: sum.splits)
  have d1: "distinct (map rawName items1)" using assms(1) c by (rule captureType_distinct)
  have "\<And>vals. distinct (map rawName (foldl (widgetStep uuid) items1 vals))"
    by (rule foldl_preserves [where I = "\<lambda>acc. distinct (map rawName acc)"])
       (simp_all add: widgetStep_distinct d1)
  with assms(2) t c d1 show ?thesis
    by (auto simp: savedNodeStep_def split: sum.splits option.splits json.splits)
qed

lemma apiNodeStep_distinct:
  assumes "distinct (map rawName items)" and "apiNodeStep uuid items node = Inr items'"
  shows "distinct (map rawName items')"
proof -
  from assms(2) obtain t items1 where
    t: "getProp node ''class_type'' = Inr t" and c: "captureType uuid items t = Inr items1"
    by (auto simp: apiNodeStep_def split: sum.splits)
  have d1: "distinct (map rawName items1)" using assms(1) c by (rule captureType_distinct)
  with assms(2) t c show ?thesis
    by (auto simp: apiNodeStep_def processInputs_distinct split: sum.splits)
qed

lemma forEachE_preserves:
  assumes "\<And>acc x acc'. I acc \<Longrightarrow> f acc x = Inr acc' \<Longrightarrow> I acc'"
  shows "I acc \<Longrightarrow> forEachE f acc xs = Inr out \<Longrightarrow> I out"
proof (induction xs arbitrary: acc)
  case Nil
  then show ?case by simp
next
  case (Cons x xs)
  from Cons.prems(2) obtain acc' where s: "f acc x = Inr acc'" and r: "forEachE f acc' xs = Inr out"
    by (auto split: sum.splits)
  from assms [OF Cons.prems(1) s] have "I acc'" .
  from Cons.IH [OF this r] show ?case .
qed

lemma scanParsed_distinct:
  assumes "scanParsed uuid d = Inr out"
  shows "distinct (map rawName out)"
proof -
  have base: "distinct (map rawName ([] :: ScannedItem list))" by simp
  have saved: "\<And>nodes. forEachE (savedNodeStep uuid) [] nodes = Inr out \<Longrightarrow> distinct (map rawName out)"
    by (rule forEachE_preserves [where I = "\<lambda>acc. distinct (map rawName acc)" and f = "savedNodeStep uuid"])
       (auto intro: savedNodeStep_distinct)
  have api: "\<And>nodes. forEachE (apiNodeStep uuid) [] nodes = Inr out \<Longrightarrow> distinct (map rawName out)"
    by (rule forEachE_preserves [where I = "\<lambda>acc. distinct (map rawName acc)" and f = "apiNodeStep uuid"])
       (auto intro: apiNodeStep_distinct)
  from assms saved api show ?thesis
    by (auto simp: scanParsed_def split: sum.splits option.splits json.splits)
qed

lemma getProp_error: "getProp v k = Inl e \<Longrightarrow> e = TypeError"
  by (cases v) simp_all

lemma captureType_error: "captureType uuid items t = Inl e \<Longrightarrow> e = TypeError"
  by (cases "(uuid, items, t)" rule: captureType.cases) (auto split: if_splits)

lemma savedNodeStep_error: "savedNodeStep uuid items node = Inl e \<Longrightarrow> e = TypeError"
  by (auto simp: savedNodeStep_def split: sum.splits option.splits json.splits
           dest: getProp_error captureType_error)

lemma apiNodeStep_error: "apiNodeStep uuid items node = Inl e \<Longrightarrow> e = TypeError"
  by (auto simp: apiNodeStep_def split: sum.splits dest: getProp_error captureType_error)

lemma forEachE_error:
  assumes "\<And>acc x e. f acc x = Inl e \<Longrightarrow> e = TypeError"
  shows "forEachE f acc xs = Inl e \<Longrightarrow> e = TypeError"
proof (induction xs arbitrary: acc)
  case Nil
  then show ?case by simp
next
  case (Cons x xs)
  show ?case
  proof (cases "f acc x")
    case (Inl e')
    with Cons.prems have "e' = e" by simp
    with Inl assms show ?thesis by blast
  next
    case (Inr acc')
    with Cons.prems have "forEachE f acc' xs = Inl e" by simp
    then show ?thesis by (rule Cons.IH)
  qed
qed

lemma scanParsed_error:
  assumes "scanParsed uuid d = Inl e"
  shows "e = TypeError"
proof -
  have saved: "\<And>nodes. forEachE (savedNodeStep uuid) [] nodes = Inl e \<Longrightarrow> e = TypeError"
    by (rule forEachE_error [where f = "savedNodeStep uuid"]) (rule savedNodeStep_error)
  have api: "\<And>nodes. forEachE (apiNodeStep uuid) [] nodes = Inl e \<Longrightarrow> e = TypeError"
    by (rule forEachE_error [where f = "apiNodeStep uuid"]) (rule apiNodeStep_error)
  from assms saved api show ?thesis
    by (auto simp: scanParsed_def split: sum.splits option.splits json.splits dest: getProp_error)
qed

lemma forEachE_total:
  assumes "\<And>acc x. x \<in> set xs \<Longrightarrow> \<exists>acc'. f acc x = Inr acc'"
  shows "\<exists>out. forEachE f acc xs = Inr out"
  using assms
proof (induction xs arbitrary: acc)
  case Nil
  then show ?case by simp
next
  case (Cons x xs)
  from Cons.prems [of x acc] obtain acc' where s: "f acc x = Inr acc'" by auto
  have "\<exists>out. forEachE f acc' xs = Inr out"
    by (rule Cons.IH) (simp add: Cons.prems)
  with s show ?case by simp
qed

lemma isStr_cases:
  assumes "(case v of Some (JStr t) \<Rightarrow> True | _ \<Rightarrow> False)"
  obtains t where "v = Some (JStr t)"
proof (cases v)
  case None
  with assms show ?thesis by simp
next
  case (Some w)
  with assms that show ?thesis by (cases w) simp_all
qed

lemma savedNodeStep_total:
  assumes "graphNodeRecord n"
  shows "\<exists>items'. savedNodeStep uuid items n = Inr items'"
proof -
  from assms obtain kvs where n: "n = JObj kvs"
    by (cases n) (simp_all add: graphNodeRecord_def)
  from assms n have "(case map_of kvs ''type'' of Some (JStr t) \<Rightarrow> True | _ \<Rightarrow> False)"
    by (simp add: graphNodeRecord_def)
  then obtain t where t: "map_of kvs ''type'' = Some (JStr t)" by (rule isStr_cases)
  obtain items1 where c: "captureType uuid items (Some (JStr t)) = Inr items1"
    by (cases "t \<noteq> [] \<and> \<not> isCoreNode t") auto
  show ?thesis
  proof (cases "map_of kvs ''widgets_values''")
    case None
    with n t c show ?thesis by (simp add: savedNodeStep_def)
  next
    case (Some w)
    with n t c show ?thesis by (cases w) (simp_all add: savedNodeStep_def)
  qed
qed

lemma apiNodeStep_total:
  assumes "executionNodeRecord n"
  shows "\<exists>items'. apiNodeStep uuid items n = Inr items'"
proof -
  from assms obtain kvs where n: "n = JObj kvs"
    by (cases n) (simp_all add: executionNodeRecord_def)
  from assms n have "(case map_of kvs ''class_type'' of Some (JStr t) \<Rightarrow> True | _ \<Rightarrow> False)"
    by (simp add: executionNodeRecord_def)
  then obtain t where t: "map_of kvs ''class_type'' = Some (JStr t)" by (rule isStr_cases)
  obtain items1 where c: "captureType uuid items (Some (JStr t)) = Inr items1"
    by (cases "t \<noteq> [] \<and> \<not> isCoreNode t") auto
  from n t c show ?thesis by (simp add: apiNodeStep_def)
qed

lemma graphForm_total:
  assumes "graphForm d"
  shows "\<exists>out. scanParsed uuid d = Inr out"
proof -
  from assms obtain kvs where d: "d = JObj kvs"
    by (cases d) (simp_all add: graphForm_def)
  from assms d obtain nodes where n: "map_of kvs ''nodes'' = Some (JArr nodes)"
    and all: "list_all graphNodeRecord nodes"
  proof (cases "map_of kvs ''nodes''")
    case None
    with assms d show ?thesis by (simp add: graphForm_def)
  next
    case (Some w)
    with assms d that show ?thesis by (cases w) (simp_all add: graphForm_def)
  qed
  have "\<exists>out. forEachE (savedNodeStep uuid) [] nodes = Inr out"
    by (rule forEachE_total) (use all in \<open>auto simp: list_all_iff intro: savedNodeStep_total\<close>)
  with d n show ?thesis by (simp add: scanParsed_def)
qed

lemma executionForm_total:
  assumes "executionForm d"
  shows "\<exists>out. scanParsed uuid d = Inr out"
proof -
  from assms obtain kvs where d: "d = JObj kvs"
    by (cases d) (simp_all add: executionForm_def)
  from assms d have all: "list_all (\<lambda>kv. executionNodeRecord (snd kv)) kvs"
    by (simp add: executionForm_def)
  have api: "\<exists>out. forEachE (apiNodeStep uuid) [] (map snd kvs) = Inr out"
    by (rule forEachE_total) (use all in \<open>auto simp: list_all_iff intro: apiNodeStep_total\<close>)
  show ?thesis
  proof (cases "map_of kvs ''nodes''")
    case None
    with d api show ?thesis by (simp add: scanParsed_def)
  next
    case (Some w)
    then have "(''nodes'', w) \<in> set kvs" by (rule map_of_SomeD)
    with all have "executionNodeRecord w" by (auto simp: list_all_iff)
    then obtain fs where "w = JObj fs" by (cases w) (simp_all add: executionNodeRecord_def)
    with Some d api show ?thesis by (simp add: scanParsed_def)
  qed
qed

lemma null_document_raises_TypeError: "scanParsed uuid JNull = Inl TypeError"
  by (simp add: scanParsed_def)

text \<open>
  Claim C5 does not hold of the code at this input: a graph-form document whose node has
  the widget value \<open>model.pt\<close> yields no item, because the widget scan tests the endings
  \<open>.safetensors\<close> and \<open>.ckpt\<close> only. The scan of the execution form, which tests all
  four endings, extracts the same value.
\<close>

theorem graph_form_skips_pt_widget_value:
  "parseWorkflowData (parseOnly ptGraphText ptGraphDoc) uuidLine ptGraphText = Inr []
   \<and> parseWorkflowData (parseOnly ptApiText ptApiDoc) uuidLine ptApiText
     = Inr [\<lparr> item_id = ''uuid-0'', rawName = ''model.pt'', isNode = False \<rparr>]"
  by (simp add: scan_defs parseOnly_def ptGraphDoc_def ptApiDoc_def uuidLine_def decimal.simps
        digitChar_def)

text \<open>
  Claim C6: the scan ends with the error \<open>Invalid JSON format\<close> exactly when the text
  does not parse, and then returns no items; and on every text that parses to a
  document of graph form or of execution form it returns a list of items.
\<close>

theorem ParseError_exactly_on_unparsable_text:
  "(JSON_parse s = None \<longrightarrow> parseWorkflowData JSON_parse uuid s = Inl InvalidJSONFormat)
   \<and> (parseWorkflowData JSON_parse uuid s = Inl InvalidJSONFormat \<longrightarrow> JSON_parse s = None)
   \<and> (\<forall>d. JSON_parse s = Some d \<and> (graphForm d \<or> executionForm d)
          \<longrightarrow> (\<exists>items. parseWorkflowData JSON_parse uuid s = Inr items))"
proof (intro conjI impI allI)
  assume "JSON_parse s = None"
  then show "parseWorkflowData JSON_parse uuid s = Inl InvalidJSONFormat"
    by (simp add: parseWorkflowData_def)
next
  assume e: "parseWorkflowData JSON_parse uuid s = Inl InvalidJSONFormat"
  show "JSON_parse s = None"
  proof (cases "JSON_parse s")
    case None
    then show ?thesis .
  next
    case (Some d)
    with e have "scanParsed uuid d = Inl InvalidJSONFormat" by (simp add: parseWorkflowData_def)
    from scanParsed_error [OF this] show ?thesis by simp
  qed
next
  fix d
  assume a: "JSON_parse s = Some d \<and> (graphForm d \<or> executionForm d)"
  then have "\<exists>items. scanParsed uuid d = Inr items"
    using graphForm_total executionForm_total by blast
  with a show "\<exists>items. parseWorkflowData JSON_parse uuid s = Inr items"
    by (simp add: parseWorkflowData_def)
qed

theorem ParseError_exactly_on_unparsable_text_witness:
  "parseWorkflowData (parseOnly dupGraphText dupGraphDoc) uuidLine ''{not json'' = Inl InvalidJSONFormat
   \<and> graphForm dupGraphDoc
   \<and> (\<exists>items. parseWorkflowData (parseOnly dupGraphText dupGraphDoc) uuidLine dupGraphText = Inr items)
   \<and> executionForm ptApiDoc
   \<and> (\<exists>items. parseWorkflowData (parseOnly ptApiText ptApiDoc) uuidLine ptApiText = Inr items)"
proof -
  have bad: "parseOnly dupGraphText dupGraphDoc ''{not json'' = None"
    by (simp add: parseOnly_def dupGraphText_def)
  have g: "graphForm dupGraphDoc"
    by (simp add: graphForm_def graphNodeRecord_def dupGraphDoc_def)
  have x: "executionForm ptApiDoc"
    by (simp add: executionForm_def executionNodeRecord_def ptApiDoc_def)
  have pg: "parseOnly dupGraphText dupGraphDoc dupGraphText = Some dupGraphDoc"
    by (simp add: parseOnly_def)
  have px: "parseOnly ptApiText ptApiDoc ptApiText = Some ptApiDoc"
    by (simp add: parseOnly_def)
  from bad ParseError_exactly_on_unparsable_text
         [of "parseOnly dupGraphText dupGraphDoc" "''{not json''" uuidLine]
  have 1: "parseWorkflowData (parseOnly dupGraphText dupGraphDoc) uuidLine ''{not json'' = Inl InvalidJSONFormat"
    by blast
  from g pg ParseError_exactly_on_unparsable_text
         [of "parseOnly dupGraphText dupGraphDoc" dupGraphText uuidLine]
  have 2: "\<exists>items. parseWorkflowData (parseOnly dupGraphText dupGraphDoc) uuidLine dupGraphText = Inr items"
    by blast
  from x px ParseError_exactly_on_unparsable_text
         [of "parseOnly ptApiText ptApiDoc" ptApiText uuidLine]
  have 3: "\<exists>items. parseWorkflowData (parseOnly ptApiText ptApiDoc) uuidLine ptApiText = Inr items"
    by blast
  from 1 g 2 x 3 show ?thesis by blast
qed

text \<open>
  Claim C7: whatever the document, the items a scan returns have pairwise different
  \<open>rawName\<close>s. The name is trimmed before it is looked up: a name whose trimmed form
  is already present leaves the items as they are (the first occurrence stays, nothing
  is counted or merged), and a new non-empty name is appended under its trimmed form.
\<close>

theorem scan_rawNames_distinct:
  "(\<forall>items. parseWorkflowData JSON_parse uuid s = Inr items \<longrightarrow> distinct (map rawName items))
   \<and> (trim nm \<in> set (map rawName acc) \<longrightarrow> addItem uuid acc nm b = acc)
   \<and> (nm \<noteq> [] \<and> trim nm \<notin> set (map rawName acc) \<longrightarrow>
        addItem uuid acc nm b
          = acc @ [\<lparr> item_id = uuid (length acc), rawName = trim nm, isNode = b \<rparr>])"
proof (intro conjI allI impI)
  fix items
  assume "parseWorkflowData JSON_parse uuid s = Inr items"
  then obtain d where "scanParsed uuid d = Inr items"
    by (auto simp: parseWorkflowData_def split: option.splits)
  then show "distinct (map rawName items)" by (rule scanParsed_distinct)
next
  assume "trim nm \<in> set (map rawName acc)"
  then show "addItem uuid acc nm b = acc" by (simp add: addItem_def)
next
  assume "nm \<noteq> [] \<and> trim nm \<notin> set (map rawName acc)"
  then show "addItem uuid acc nm b
          = acc @ [\<lparr> item_id = uuid (length acc), rawName = trim nm, isNode = b \<rparr>]"
    by (simp add: addItem_def)
qed

theorem scan_rawNames_distinct_witness:
  "parseWorkflowData (parseOnly dupGraphText dupGraphDoc) uuidLine dupGraphText = Inr dupItems
   \<and> distinct (map rawName dupItems)
   \<and> addItem uuidLine dupItems '' a.safetensors'' False = dupItems
   \<and> addItem uuidLine dupItems '' b.ckpt '' False
     = dupItems @ [\<lparr> item_id = ''uuid-2'', rawName = ''b.ckpt'', isNode = False \<rparr>]"
proof -
  have run: "parseWorkflowData (parseOnly dupGraphText dupGraphDoc) uuidLine dupGraphText = Inr dupItems"
    by (simp add: scan_defs parseOnly_def dupGraphDoc_def dupItems_def uuidLine_def decimal.simps
          digitChar_def)
  have old: "trim '' a.safetensors'' \<in> set (map rawName dupItems)"
    by (simp add: trim_def isWhiteSpace_def dupItems_def)
  have new: "'' b.ckpt '' \<noteq> [] \<and> trim '' b.ckpt '' \<notin> set (map rawName dupItems)"
    by (simp add: trim_def isWhiteSpace_def dupItems_def)
  have id: "uuidLine (length dupItems) = ''uuid-2''" and tr: "trim '' b.ckpt '' = ''b.ckpt''"
    by (simp_all add: uuidLine_def dupItems_def decimal.simps digitChar_def trim_def isWhiteSpace_def)
  from run old new
    scan_rawNames_distinct [of "parseOnly dupGraphText dupGraphDoc" uuidLine dupGraphText
      "'' a.safetensors''" dupItems False]
    scan_rawNames_distinct [of "parseOnly dupGraphText dupGraphDoc" uuidLine dupGraphText
      "'' b.ckpt ''" dupItems False]
  show ?thesis unfolding id tr by blast
qed

section \<open>URL validation\<close>

lemmas validation_defs = isDirectDownloadUrl_def toLowerCase_def toLowerChar_def isUpperChar_def
  commonModelHosts_def modelFileEndings_def suffix_to_prefix sublist_code(3)

text \<open>
  Claim C9: the rule chain, first match first, calls \<open>search: lora for anime style\<close>
  invalid for every type with a reason that mentions a search query, calls
  \<open>git@github.com:foo/bar.git\<close> valid for a custom node, and calls
  \<open>https://example.com/file.zip\<close> invalid for a checkpoint, the URL naming no known
  model host and ending in no model-file extension.
\<close>

theorem validation_examples:
  "isDirectDownloadUrl ''search: lora for anime style'' ty
     = \<lparr> isValid = False, reason = Some ''This is a search query, not a direct download link.'' \<rparr>
   \<and> sublist ''search query'' ''This is a search query, not a direct download link.''
   \<and> isDirectDownloadUrl ''git@github.com:foo/bar.git'' CUSTOM_NODE = \<lparr> isValid = True, reason = None \<rparr>
   \<and> isDirectDownloadUrl ''https://example.com/file.zip'' CHECKPOINT
     = \<lparr> isValid = False,
         reason = Some ''Model URL might not be a direct download or recognized hosting platform.'' \<rparr>
   \<and> \<not> list_ex (\<lambda>host. sublist host ''https://example.com/file.zip'') commonModelHosts
   \<and> \<not> list_ex (\<lambda>e. suffix e ''https://example.com/file.zip'') modelFileEndings"
  by (simp add: validation_defs)

section \<open>The synthesizer\<close>

lemma bash_loop:
  "foldl (bashStep g) script rs = script @ concat (resourceBlocks g bash rs)"
  by (induction rs arbitrary: script) (simp_all add: resourceBlocks_def resourceBlock_def bashStep_def)

lemma bat_loop:
  "foldl (batStep g) script rs = script @ concat (resourceBlocks g bat rs)"
  by (induction rs arbitrary: script) (simp_all add: resourceBlocks_def resourceBlock_def batStep_def)

text \<open>
  Claim C8: the script is the header of the dialect for the date, then the blocks of the
  resources with a non-empty \<open>downloadUrl\<close> in input order, each block a function of
  its resource and the dialect alone, then the trailer of the dialect. So the date shows
  in the header only, and a permutation of the resources yields the same blocks,
  permuted.
\<close>

theorem script_is_header_blocks_trailer:
  "generateScript g format timestamp resources
     = scriptHeader format timestamp @ concat (resourceBlocks g format resources) @ scriptTrailer format
   \<and> resourceBlocks g format resources
     = map (resourceBlock g format) (filter (\<lambda>r. downloadUrl r \<noteq> []) resources)
   \<and> (mset resources' = mset resources \<longrightarrow>
        mset (resourceBlocks g format resources') = mset (resourceBlocks g format resources))"
proof (intro conjI impI)
  show "generateScript g format timestamp resources
     = scriptHeader format timestamp @ concat (resourceBlocks g format resources) @ scriptTrailer format"
    by (cases format)
       (simp_all add: generateScript_def scriptHeader_def scriptTrailer_def bash_loop bat_loop)
  show "resourceBlocks g format resources
     = map (resourceBlock g format) (filter (\<lambda>r. downloadUrl r \<noteq> []) resources)"
    by (simp add: resourceBlocks_def)
next
  assume "mset resources' = mset resources"
  then show "mset (resourceBlocks g format resources') = mset (resourceBlocks g format resources)"
    by (simp add: resourceBlocks_def)
qed

theorem script_is_header_blocks_trailer_witness:
  "mset [ckptModel, noUrlModel, barNodeOne] = mset [barNodeOne, ckptModel, noUrlModel]
   \<and> mset (resourceBlocks lastSegmentName bash [ckptModel, noUrlModel, barNodeOne])
     = mset (resourceBlocks lastSegmentName bash [barNodeOne, ckptModel, noUrlModel])
   \<and> resourceBlocks lastSegmentName bash [barNodeOne, ckptModel, noUrlModel]
     = [resourceBlock lastSegmentName bash barNodeOne, resourceBlock lastSegmentName bash ckptModel]"
proof -
  have p: "mset [ckptModel, noUrlModel, barNodeOne] = mset [barNodeOne, ckptModel, noUrlModel]"
    by simp
  have b: "resourceBlocks lastSegmentName bash [barNodeOne, ckptModel, noUrlModel]
     = [resourceBlock lastSegmentName bash barNodeOne, resourceBlock lastSegmentName bash ckptModel]"
    by (simp add: resourceBlocks_def barNodeOne_def ckptModel_def noUrlModel_def)
  from p b
    script_is_header_blocks_trailer
      [of lastSegmentName bash "[]" "[barNodeOne, ckptModel, noUrlModel]"
          "[ckptModel, noUrlModel, barNodeOne]"]
  show ?thesis by blast
qed

lemma splitLines_nonempty: "splitLines s \<noteq> []"
  by (induction s) (auto split: list.splits)

lemma splitLines_newline: "splitLines (t @ CHR 0x0A # s) = splitLines t @ splitLines s"
proof (induction t)
  case Nil
  show ?case by simp
next
  case (Cons c t)
  obtain l ls where "splitLines t = l # ls"
    using splitLines_nonempty [of t] by (cases "splitLines t") auto
  with Cons show ?case by simp
qed

lemma readLines_append:
  "readLines step d (xs @ ys) = Option.bind (readLines step d xs) (\<lambda>d'. readLines step d' ys)"
  by (induction xs arbitrary: d) (auto split: option.splits)

lemma readLines_piece:
  assumes "e \<noteq> []" and "last e = CHR 0x0A"
  shows "readLines step d (splitLines (concat (e # es)))
         = Option.bind (readLines step d (butlast (splitLines e)))
             (\<lambda>d'. readLines step d' (splitLines (concat es)))"
proof -
  from assms obtain t where e: "e = t @ [CHR 0x0A]"
    using append_butlast_last_id [of e] by metis
  have one: "butlast (splitLines e) = splitLines t"
    using splitLines_newline [of t "[]"] by (simp add: e)
  have "splitLines (concat (e # es)) = splitLines t @ splitLines (concat es)"
    using splitLines_newline [of t "concat es"] by (simp add: e)
  with one show ?thesis by (simp add: readLines_append)
qed

lemma readLines_end: "readLines step d (splitLines (concat [])) = step d []"
  by (simp split: option.splits)

lemma lastSegmentName_bar: "lastSegmentName ''https://github.com/foo/bar'' = ''bar''"
  by (simp add: lastSegmentName_def suffix_to_prefix)

lemmas line_defs = opensIf_def closesIf_def stripIndent_def opensParen_def closesParen_def
  ifStep_def parenStep_def suffix_to_prefix

lemma concat_join: "concat xs @ concat ys = concat (xs @ ys)"
  by simp

text \<open>
  Claim C4 does not hold of the code at this input: in the block the shell dialect emits
  for a custom node, the conditional around the submodule warning is closed by a line
  \<open>}\<close> where a line \<open>fi\<close> belongs, so one \<open>if ...; then\<close> of the block is never
  closed. The batch dialect closes every block it opens.
\<close>

theorem posix_custom_node_block_leaves_if_open:
  "ifDepth (resourceBlock lastSegmentName bash barNodeOne) = Some 1
   \<and> parenDepth (resourceBlock lastSegmentName bat barNodeOne) = Some 0"
proof
  show "ifDepth (resourceBlock lastSegmentName bash barNodeOne) = Some 1"
    by (simp add: ifDepth_def resourceBlock_def bashPrefix_def bashCustomNode_def barNodeOne_def
          lastSegmentName_bar sq_def Let_def concat_join readLines_piece readLines_end line_defs
          del: concat.simps concat_append)
  show "parenDepth (resourceBlock lastSegmentName bat barNodeOne) = Some 0"
    by (simp add: parenDepth_def resourceBlock_def batPrefix_def batCustomNode_def barNodeOne_def
          lastSegmentName_bar sq_def Let_def concat_join readLines_piece readLines_end line_defs
          del: concat.simps concat_append)
qed

end
